theory Spec2Isabelle
  imports Main "HOL-Library.Word" "HOL-Library.Sublist"
begin

section \<open>Strings of the source language\<close>

text \<open>
  A string of the source is a sequence of UTF-16 code units; \<open>length\<close>, \<open>slice\<close> and
  \<open>===\<close> work on code units. Text that a user types (an alarm's time and label) is any
  such sequence. \<open>ascii\<close> writes a literal made of ASCII characters.
\<close>

type_synonym jsstring = "16 word list"

definition ascii :: "string \<Rightarrow> jsstring" where
  "ascii s = map (\<lambda>c. word_of_nat (of_char c)) s"

text \<open>\<open>s.slice(b, e)\<close> for indices \<open>0 \<le> b\<close>, \<open>0 \<le> e\<close> (the only use is \<open>slice(0, 5)\<close>).\<close>

definition slice :: "nat \<Rightarrow> nat \<Rightarrow> jsstring \<Rightarrow> jsstring" where
  "slice b e s = drop b (take e s)"

text \<open>The decimal digits of a natural number, most significant first.\<close>

fun digitsOf :: "nat \<Rightarrow> jsstring" where
  "digitsOf n =
     (if n < 10 then [word_of_nat (48 + n)]
      else digitsOf (n div 10) @ [word_of_nat (48 + n mod 10)])"

declare digitsOf.simps [simp del]

text \<open>
  \<open>Number.prototype.toString()\<close> on an integral number below \<open>10^21\<close> in magnitude, which
  every millisecond timestamp is: an optional minus sign and the decimal digits.
\<close>

definition numberToString :: "int \<Rightarrow> jsstring" where
  "numberToString i = (if i < 0 then 0x2D # digitsOf (nat (- i)) else digitsOf (nat i))"

text \<open>\<open>ToZeroPaddedDecimalString(n, minLength)\<close> of the language definition.\<close>

definition ToZeroPaddedDecimalString :: "int \<Rightarrow> nat \<Rightarrow> jsstring" where
  "ToZeroPaddedDecimalString n minLength =
     (let S = numberToString n in replicate (minLength - length S) 0x30 @ S)"

section \<open>Data model\<close>

datatype TimeTheme = morning | afternoon | evening | night

text \<open>
  The interfaces \<open>WorldClock\<close> and \<open>Alarm\<close>. Both have a field \<open>time\<close> in the source; the
  world clock's is \<open>wc_time\<close> here. The alarm's \<open>id\<close> is \<open>alarm_id\<close>.
\<close>

record WorldClock =
  city :: jsstring
  timezone :: jsstring
  wc_time :: jsstring

record Alarm =
  alarm_id :: jsstring
  time :: jsstring
  label :: jsstring
  enabled :: bool

text \<open>
  A \<open>Date\<close> is its time value, the milliseconds since the epoch in UTC; every \<open>Date\<close> of
  the component comes from \<open>new Date()\<close>, so the time value is never \<open>NaN\<close>.
  \<open>Date | null\<close> is \<open>int option\<close>.
\<close>

type_synonym Date = int

text \<open>The state variables of the component (\<open>useState\<close>).\<close>

record ClockState =
  currentTime :: "Date option"
  theme :: TimeTheme
  mounted :: bool
  alarms :: "Alarm list"
  newAlarmTime :: jsstring
  newAlarmLabel :: jsstring
  worldClocks :: "WorldClock list"

definition initialWorldClocks :: "WorldClock list" where
  "initialWorldClocks =
     [\<lparr>city = [0x30CB, 0x30E5, 0x30FC, 0x30E8, 0x30FC, 0x30AF],
       timezone = ascii ''America/New_York'', wc_time = []\<rparr>,
      \<lparr>city = [0x30ED, 0x30F3, 0x30C9, 0x30F3],
       timezone = ascii ''Europe/London'', wc_time = []\<rparr>,
      \<lparr>city = [0x6771, 0x4EAC],
       timezone = ascii ''Asia/Tokyo'', wc_time = []\<rparr>,
      \<lparr>city = [0x30B7, 0x30C9, 0x30CB, 0x30FC],
       timezone = ascii ''Australia/Sydney'', wc_time = []\<rparr>]"

definition initialState :: ClockState where
  "initialState =
     \<lparr>currentTime = None, theme = morning, mounted = False, alarms = [],
      newAlarmTime = [], newAlarmLabel = [], worldClocks = initialWorldClocks\<rparr>"

section \<open>The host runtime\<close>

text \<open>
  What the component takes from its runtime and not from its own code: the local time
  zone (its offset from UTC at a time value, in milliseconds, and the zone name that
  \<open>toTimeString\<close> appends) and the locale-aware formatters, which are given the locale,
  the options object and the time value.
\<close>

record FormatOptions =
  timeZone :: "jsstring option"
  hour12 :: "bool option"
  hour :: "jsstring option"
  minute :: "jsstring option"
  second :: "jsstring option"
  weekday :: "jsstring option"
  year :: "jsstring option"
  month :: "jsstring option"
  day :: "jsstring option"

definition noOptions :: FormatOptions where
  "noOptions =
     \<lparr>timeZone = None, hour12 = None, hour = None, minute = None, second = None,
      weekday = None, year = None, month = None, day = None\<rparr>"

record Host =
  LocalTZA :: "int \<Rightarrow> int"
  tzName :: "int \<Rightarrow> jsstring"
  toLocaleTimeString :: "jsstring \<Rightarrow> FormatOptions \<Rightarrow> Date \<Rightarrow> jsstring"
  toLocaleDateString :: "jsstring \<Rightarrow> FormatOptions \<Rightarrow> Date \<Rightarrow> jsstring"

subsection \<open>Date arithmetic of the language definition\<close>

definition msPerSecond :: int where "msPerSecond = 1000"
definition msPerMinute :: int where "msPerMinute = 60000"
definition msPerHour :: int where "msPerHour = 3600000"

definition HourFromTime :: "int \<Rightarrow> int" where
  "HourFromTime t = (t div msPerHour) mod 24"

definition MinFromTime :: "int \<Rightarrow> int" where
  "MinFromTime t = (t div msPerMinute) mod 60"

definition SecFromTime :: "int \<Rightarrow> int" where
  "SecFromTime t = (t div msPerSecond) mod 60"

definition LocalTime :: "Host \<Rightarrow> int \<Rightarrow> int" where
  "LocalTime h t = t + LocalTZA h t"

definition getHours :: "Host \<Rightarrow> Date \<Rightarrow> int" where
  "getHours h d = HourFromTime (LocalTime h d)"

definition getMinutes :: "Host \<Rightarrow> Date \<Rightarrow> int" where
  "getMinutes h d = MinFromTime (LocalTime h d)"

definition TimeString :: "int \<Rightarrow> jsstring" where
  "TimeString tv =
     ToZeroPaddedDecimalString (HourFromTime tv) 2 @ ascii '':'' @
     ToZeroPaddedDecimalString (MinFromTime tv) 2 @ ascii '':'' @
     ToZeroPaddedDecimalString (SecFromTime tv) 2 @ ascii '' GMT''"

definition TimeZoneString :: "Host \<Rightarrow> int \<Rightarrow> jsstring" where
  "TimeZoneString h tv =
     (let offset = LocalTZA h tv;
          offsetSign = (if 0 \<le> offset then ascii ''+'' else ascii ''-'');
          absOffset = (if 0 \<le> offset then offset else - offset)
      in offsetSign @ ToZeroPaddedDecimalString (HourFromTime absOffset) 2 @
         ToZeroPaddedDecimalString (MinFromTime absOffset) 2 @ tzName h tv)"

definition toTimeString :: "Host \<Rightarrow> Date \<Rightarrow> jsstring" where
  "toTimeString h d = TimeString (LocalTime h d) @ TimeZoneString h d"

section \<open>Theme selection\<close>

text \<open>The chain of comparisons on \<open>hour\<close> in the theme effect.\<close>

definition themeOfHour :: "int \<Rightarrow> TimeTheme" where
  "themeOfHour hr =
     (if hr \<ge> 6 \<and> hr < 12 then morning
      else if hr \<ge> 12 \<and> hr < 18 then afternoon
      else if hr \<ge> 18 \<and> hr < 21 then evening
      else night)"

text \<open>The effect on \<open>currentTime\<close>: nothing while it is \<open>null\<close>, else \<open>setTheme\<close>.\<close>

definition themeEffect :: "Host \<Rightarrow> ClockState \<Rightarrow> ClockState" where
  "themeEffect h st =
     (case currentTime st of
        None \<Rightarrow> st
      | Some d \<Rightarrow> st\<lparr>theme := themeOfHour (getHours h d)\<rparr>)"

section \<open>Formatters of the display\<close>

definition timeOptions :: FormatOptions where
  "timeOptions =
     noOptions\<lparr>hour12 := Some False, hour := Some (ascii ''2-digit''),
       minute := Some (ascii ''2-digit''), second := Some (ascii ''2-digit'')\<rparr>"

definition dateOptions :: FormatOptions where
  "dateOptions =
     noOptions\<lparr>weekday := Some (ascii ''long''), year := Some (ascii ''numeric''),
       month := Some (ascii ''long''), day := Some (ascii ''numeric'')\<rparr>"

definition timePlaceholder :: jsstring where
  "timePlaceholder = ascii ''--:--:--''"

definition datePlaceholder :: jsstring where
  "datePlaceholder =
     [0x002D, 0x002D, 0x002D, 0x002D, 0x5E74, 0x002D, 0x002D, 0x6708, 0x002D, 0x002D, 0x65E5]"

definition formatTime :: "Host \<Rightarrow> Date option \<Rightarrow> jsstring" where
  "formatTime h date =
     (case date of
        None \<Rightarrow> timePlaceholder
      | Some d \<Rightarrow> toLocaleTimeString h (ascii ''en-US'') timeOptions d)"

definition formatDate :: "Host \<Rightarrow> Date option \<Rightarrow> jsstring" where
  "formatDate h date =
     (case date of
        None \<Rightarrow> datePlaceholder
      | Some d \<Rightarrow> toLocaleDateString h (ascii ''ja-JP'') dateOptions d)"

section \<open>World clocks\<close>




section \<open>Alarms\<close>

subsection \<open>The check on every tick\<close>

definition alertPrefix :: jsstring where
  "alertPrefix = [0x30A2, 0x30E9, 0x30FC, 0x30E0, 0x003A, 0x0020]"

definition defaultMessage :: jsstring where
  "defaultMessage = [0x8D77, 0x304D, 0x308B, 0x6642, 0x9593, 0x3067, 0x3059, 0xFF01]"

text \<open>The template literal of the alert; \<open>||\<close> takes its right operand for the empty string.\<close>

definition alertMessage :: "Alarm \<Rightarrow> jsstring" where
  "alertMessage alarm =
     alertPrefix @ (if label alarm \<noteq> [] then label alarm else defaultMessage)"

text \<open>\<open>alarms.forEach\<close>: the messages passed to \<open>alert\<close>, in the order of the calls.\<close>

fun forEachAlarm :: "jsstring \<Rightarrow> Alarm list \<Rightarrow> jsstring list" where
  "forEachAlarm currentTimeString [] = []"
| "forEachAlarm currentTimeString (alarm # rest) =
     (if enabled alarm \<and> time alarm = currentTimeString
      then alertMessage alarm # forEachAlarm currentTimeString rest
      else forEachAlarm currentTimeString rest)"

text \<open>
  The alarm effect: the alerts it raises and the state after it. It calls no state
  setter.
\<close>

definition alarmEffect :: "Host \<Rightarrow> ClockState \<Rightarrow> jsstring list \<times> ClockState" where
  "alarmEffect h st =
     (case currentTime st of
        None \<Rightarrow> ([], st)
      | Some d \<Rightarrow> (forEachAlarm (slice 0 5 (toTimeString h d)) (alarms st), st))"

text \<open>
  One tick of the timer: \<open>setCurrentTime(new Date())\<close>, then the effects that depend on
  \<open>currentTime\<close>, in the order of their declaration.
\<close>

definition tick :: "Host \<Rightarrow> Date \<Rightarrow> ClockState \<Rightarrow> jsstring list \<times> ClockState" where
  "tick h now st = alarmEffect h (themeEffect h (st\<lparr>currentTime := Some now\<rparr>))"


subsection \<open>The handlers\<close>

text \<open>\<open>addAlarm\<close>; \<open>now\<close> is what \<open>Date.now()\<close> returns when the handler runs.\<close>

definition addAlarm :: "int \<Rightarrow> ClockState \<Rightarrow> ClockState" where
  "addAlarm now st =
     (if newAlarmTime st \<noteq> [] then
        let newAlarm = \<lparr>alarm_id = numberToString now, time = newAlarmTime st,
                         label = newAlarmLabel st, enabled = True\<rparr>
        in st\<lparr>alarms := alarms st @ [newAlarm], newAlarmTime := [], newAlarmLabel := []\<rparr>
      else st)"

definition toggleAlarm :: "jsstring \<Rightarrow> ClockState \<Rightarrow> ClockState" where
  "toggleAlarm i st =
     st\<lparr>alarms :=
       map (\<lambda>alarm. if alarm_id alarm = i then alarm\<lparr>enabled := \<not> enabled alarm\<rparr> else alarm)
         (alarms st)\<rparr>"

definition deleteAlarm :: "jsstring \<Rightarrow> ClockState \<Rightarrow> ClockState" where
  "deleteAlarm i st = st\<lparr>alarms := filter (\<lambda>alarm. alarm_id alarm \<noteq> i) (alarms st)\<rparr>"

subsection \<open>Sequences of operations\<close>

text \<open>
  The operations of the alarm manager as the user drives them. \<open>Add now t l\<close> is: the
  two input fields are set to \<open>t\<close> and \<open>l\<close> (their \<open>onChange\<close> handlers), then the add button
  is pressed while \<open>Date.now()\<close> is \<open>now\<close>.
\<close>

datatype AlarmOp = Add int jsstring jsstring | Toggle jsstring | Delete jsstring

fun applyOp :: "ClockState \<Rightarrow> AlarmOp \<Rightarrow> ClockState" where
  "applyOp st (Add now t l) = addAlarm now (st\<lparr>newAlarmTime := t, newAlarmLabel := l\<rparr>)"
| "applyOp st (Toggle i) = toggleAlarm i st"
| "applyOp st (Delete i) = deleteAlarm i st"

definition run :: "AlarmOp list \<Rightarrow> ClockState" where
  "run ops = foldl applyOp initialState ops"

text \<open>The time strings of the adds that append an alarm.\<close>

fun addTimes :: "AlarmOp list \<Rightarrow> jsstring list" where
  "addTimes [] = []"
| "addTimes (Add now t l # ops) = (if t \<noteq> [] then t # addTimes ops else addTimes ops)"
| "addTimes (Toggle i # ops) = addTimes ops"
| "addTimes (Delete i # ops) = addTimes ops"

subsection \<open>Everything that changes the state\<close>





subsection \<open>What the specification calls \<open>HH:MM\<close>\<close>

text \<open>
  The instant as local, zero-padded, 24-hour \<open>HH:MM\<close>, in the specification's words: two
  digits of the local hour, a colon, two digits of the local minute.
\<close>

definition twoDigits :: "int \<Rightarrow> jsstring" where
  "twoDigits n = [word_of_int (48 + n div 10), word_of_int (48 + n mod 10)]"

definition localHHMM :: "Host \<Rightarrow> Date \<Rightarrow> jsstring" where
  "localHHMM h d = twoDigits (getHours h d) @ ascii '':'' @ twoDigits (getMinutes h d)"

text \<open>The pattern \<open>HH:MM\<close>: hours \<open>00\<close> to \<open>23\<close>, minutes \<open>00\<close> to \<open>59\<close>.\<close>

definition isDigit :: "16 word \<Rightarrow> bool" where
  "isDigit c = (0x30 \<le> c \<and> c \<le> 0x39)"

definition isHHMM :: "jsstring \<Rightarrow> bool" where
  "isHHMM s =
     (case s of
        [h1, h2, c, m1, m2] \<Rightarrow>
          isDigit h1 \<and> isDigit h2 \<and> c = 0x3A \<and> isDigit m1 \<and> isDigit m2 \<and>
          (h1 \<le> 0x31 \<or> (h1 = 0x32 \<and> h2 \<le> 0x33)) \<and> m1 \<le> 0x35
      | _ \<Rightarrow> False)"

subsection \<open>What the specification calls \<open>HH:MM:SS\<close>\<close>



subsection \<open>A host for concrete runs\<close>

text \<open>
  A runtime whose local zone is nine hours ahead of UTC all year, and whose time
  formatter knows the four zones of the world clocks at fixed offsets.
\<close>

definition fixedOffset :: "jsstring option \<Rightarrow> int" where
  "fixedOffset tz =
     (if tz = Some (ascii ''America/New_York'') then - 18000000
      else if tz = Some (ascii ''Europe/London'') then 0
      else if tz = Some (ascii ''Australia/Sydney'') then 39600000
      else 32400000)"

definition fixedOffsetHost :: Host where
  "fixedOffsetHost =
     \<lparr>LocalTZA = (\<lambda>t. 32400000),
      tzName = (\<lambda>t. ascii '' (GMT+09:00)''),
      toLocaleTimeString = (\<lambda>locale opts d. take 8 (TimeString (d + fixedOffset (timeZone opts)))),
      toLocaleDateString = (\<lambda>locale opts d. numberToString ((d + 32400000) div 86400000))\<rparr>"

definition twoAlarms :: "Alarm list" where
  "twoAlarms =
     [\<lparr>alarm_id = ascii ''1700000000000'', time = ascii ''07:30'', label = [], enabled = True\<rparr>,
      \<lparr>alarm_id = ascii ''1700000000001'', time = ascii ''09:00'', label = ascii ''Meeting'',
        enabled = False\<rparr>]"

section \<open>Toggling and deleting an alarm whose id is absent\<close>

lemma toggle_twice: "toggleAlarm i (toggleAlarm i st) = st"
proof -
  have "map ((\<lambda>alarm. if alarm_id alarm = i then alarm\<lparr>enabled := \<not> enabled alarm\<rparr> else alarm) \<circ>
             (\<lambda>alarm. if alarm_id alarm = i then alarm\<lparr>enabled := \<not> enabled alarm\<rparr> else alarm)) xs = xs"
    for xs :: "Alarm list"
    by (rule map_idI) simp
  then show ?thesis by (simp add: toggleAlarm_def)
qed

lemma toggle_absent: "i \<notin> alarm_id ` set (alarms st) \<Longrightarrow> toggleAlarm i st = st"
proof -
  assume a: "i \<notin> alarm_id ` set (alarms st)"
  have "map (\<lambda>alarm. if alarm_id alarm = i then alarm\<lparr>enabled := \<not> enabled alarm\<rparr> else alarm)
          (alarms st) = alarms st"
    using a by (intro map_idI) auto
  then show ?thesis by (simp add: toggleAlarm_def)
qed

lemma delete_absent: "i \<notin> alarm_id ` set (alarms st) \<Longrightarrow> deleteAlarm i st = st"
proof -
  assume a: "i \<notin> alarm_id ` set (alarms st)"
  have "filter (\<lambda>alarm. alarm_id alarm \<noteq> i) (alarms st) = alarms st"
    using a by (intro filter_True) auto
  then show ?thesis by (simp add: deleteAlarm_def)
qed

lemma delete_removes_id: "i \<notin> alarm_id ` set (alarms (deleteAlarm i st))"
  by (auto simp: deleteAlarm_def)

section \<open>The time string of the alarm check\<close>

lemma digitsOf_small: "n < 10 \<Longrightarrow> digitsOf n = [word_of_nat (48 + n)]"
  by (simp add: digitsOf.simps)

lemma digitsOf_two: "10 \<le> n \<Longrightarrow> n < 100 \<Longrightarrow>
   digitsOf n = [word_of_nat (48 + n div 10), word_of_nat (48 + n mod 10)]"
  by (subst digitsOf.simps) (simp add: digitsOf_small)

lemma pad2_twoDigits:
  assumes "0 \<le> n" "n < 100"
  shows "ToZeroPaddedDecimalString n 2 = twoDigits n"
proof (cases "n < 10")
  case True
  then have "digitsOf (nat n) = [word_of_int (48 + n)]"
    using assms by (simp add: digitsOf_small)
  then show ?thesis
    using True assms by (simp add: ToZeroPaddedDecimalString_def numberToString_def twoDigits_def)
next
  case False
  have w: "(word_of_nat k :: 16 word) = word_of_int (int k)" for k
    by simp
  have "digitsOf (nat n) = [word_of_nat (48 + nat n div 10), word_of_nat (48 + nat n mod 10)]"
    using False assms by (intro digitsOf_two) auto
  moreover have "int (48 + nat n div 10) = 48 + n div 10" "int (48 + nat n mod 10) = 48 + n mod 10"
    using assms by (simp_all add: zdiv_int zmod_int)
  ultimately have "digitsOf (nat n) = [word_of_int (48 + n div 10), word_of_int (48 + n mod 10)]"
    by (simp only: w)
  then show ?thesis
    using assms by (simp add: ToZeroPaddedDecimalString_def numberToString_def twoDigits_def)
qed

lemma slice_toTimeString: "slice 0 5 (toTimeString h d) = localHHMM h d"
proof -
  have hr: "ToZeroPaddedDecimalString (HourFromTime t) 2 = twoDigits (HourFromTime t)" for t
    by (rule pad2_twoDigits) (simp_all add: HourFromTime_def)
  have mn: "ToZeroPaddedDecimalString (MinFromTime t) 2 = twoDigits (MinFromTime t)" for t
    by (rule pad2_twoDigits) (simp_all add: MinFromTime_def)
  show ?thesis
    by (simp add: slice_def toTimeString_def TimeString_def hr mn localHHMM_def getHours_def
        getMinutes_def twoDigits_def ascii_def)
qed

lemma forEachAlarm_filter:
  "forEachAlarm s as = map alertMessage (filter (\<lambda>a. enabled a \<and> time a = s) as)"
  by (induction as) simp_all

lemma tick_alerts:
  "fst (tick h now st) =
     map alertMessage (filter (\<lambda>a. enabled a \<and> time a = localHHMM h now) (alarms st))"
  by (simp add: tick_def alarmEffect_def themeEffect_def forEachAlarm_filter slice_toTimeString)

lemma tick_state:
  "snd (tick h now st) = st\<lparr>currentTime := Some now, theme := themeOfHour (getHours h now)\<rparr>"
  by (simp add: tick_def alarmEffect_def themeEffect_def)

section \<open>The clock string\<close>






section \<open>The times of the reachable alarm lists\<close>

lemma run_snoc: "run (ops @ [op]) = applyOp (run ops) op"
  by (simp add: run_def)

lemma addTimes_append: "addTimes (xs @ ys) = addTimes xs @ addTimes ys"
  by (induction xs rule: addTimes.induct) simp_all

lemma toggle_times: "map time (alarms (toggleAlarm i st)) = map time (alarms st)"
  by (simp add: toggleAlarm_def o_def if_distrib cong: if_cong)

lemma run_times: "set (map time (alarms (run ops))) \<subseteq> {t \<in> set (addTimes ops). t \<noteq> []}"
proof (induction ops rule: rev_induct)
  case Nil
  show ?case by (simp add: run_def initialState_def)
next
  case (snoc op ops)
  show ?case
  proof (cases op)
    case (Add now t l)
    then show ?thesis
      using snoc by (auto simp: run_snoc addTimes_append addAlarm_def)
  next
    case (Toggle i)
    then show ?thesis
      using snoc by (simp add: run_snoc addTimes_append toggle_times del: set_map)
  next
    case (Delete i)
    then show ?thesis
      using snoc by (auto simp: run_snoc addTimes_append deleteAlarm_def)
  qed
qed

lemma run_times_HHMM:
  "\<forall>t \<in> set (addTimes ops). isHHMM t \<Longrightarrow> \<forall>a \<in> set (alarms (run ops)). isHHMM (time a)"
  using run_times [of ops] by auto

section \<open>The world clocks under every event\<close>








section \<open>Evaluation on the concrete host\<close>

lemma digitsOf_numeral:
  "digitsOf (numeral v) =
     (if numeral v < (10::nat) then [word_of_nat (48 + numeral v)]
      else digitsOf (numeral v div 10) @ [word_of_nat (48 + numeral v mod 10)])"
  by (rule digitsOf.simps)

lemma digitsOf_0_1: "digitsOf 0 = [0x30]" "digitsOf 1 = [0x31]" "digitsOf (Suc 0) = [0x31]"
  by (simp_all add: digitsOf.simps [of 0] digitsOf.simps [of 1] digitsOf.simps [of "Suc 0"])

lemma fixedOffsetHost_fields:
  "LocalTZA fixedOffsetHost t = 32400000"
  "tzName fixedOffsetHost t = ascii '' (GMT+09:00)''"
  "toLocaleTimeString fixedOffsetHost locale opts d =
     take 8 (TimeString (d + fixedOffset (timeZone opts)))"
  by (simp_all add: fixedOffsetHost_def)

lemmas host_eval =
  fixedOffsetHost_fields fixedOffset_def TimeString_def ToZeroPaddedDecimalString_def
  numberToString_def digitsOf_numeral digitsOf_0_1 HourFromTime_def MinFromTime_def
  SecFromTime_def msPerHour_def msPerMinute_def msPerSecond_def LocalTime_def getHours_def
  getMinutes_def ascii_def

section \<open>The claims\<close>

text \<open>
  C1. On a tick with instant \<open>t\<close>, the alerts raised are those of the alarms that are
  enabled and whose time equals the local hour and minute of \<open>t\<close> as two zero-padded
  digits each, one alert for each such alarm in list order. Disabled alarms contribute
  nothing: the alerts are those of the list with the disabled alarms removed, and none
  if every alarm is disabled. The tick leaves the alarm list as it is, enabled flags
  included, so a later tick with the same local hour and minute raises the same alerts.
\<close>

theorem tick_check_fires:
  "fst (tick h t st) =
     map alertMessage (filter (\<lambda>a. enabled a \<and> time a = localHHMM h t) (alarms st)) \<and>
   fst (tick h t st) = fst (tick h t (st\<lparr>alarms := filter enabled (alarms st)\<rparr>)) \<and>
   ((\<forall>a \<in> set (alarms st). \<not> enabled a) \<longrightarrow> fst (tick h t st) = []) \<and>
   alarms (snd (tick h t st)) = alarms st \<and>
   (localHHMM h t' = localHHMM h t \<longrightarrow>
      fst (tick h t' (snd (tick h t st))) = fst (tick h t st))"
  by (simp add: tick_alerts tick_state conj_commute)

theorem tick_check_fires_witness:
  "localHHMM fixedOffsetHost 1700001059000 = localHHMM fixedOffsetHost 1700001000000 \<and>
   fst (tick fixedOffsetHost 1700001000000 (initialState\<lparr>alarms := twoAlarms\<rparr>)) =
     [alertMessage (twoAlarms ! 0)] \<and>
   fst (tick fixedOffsetHost 1700001059000
         (snd (tick fixedOffsetHost 1700001000000 (initialState\<lparr>alarms := twoAlarms\<rparr>)))) =
     [alertMessage (twoAlarms ! 0)] \<and>
   fst (tick fixedOffsetHost 1700001000000 (initialState\<lparr>alarms := [twoAlarms ! 1]\<rparr>)) = []"
proof -
  have hm: "localHHMM fixedOffsetHost 1700001000000 = ascii ''07:30''"
    "localHHMM fixedOffsetHost 1700001059000 = ascii ''07:30''"
    by (simp_all add: localHHMM_def twoDigits_def host_eval)
  note t = tick_check_fires [where h = fixedOffsetHost and t = 1700001000000
      and t' = 1700001059000 and st = "initialState\<lparr>alarms := twoAlarms\<rparr>"]
  note u = tick_check_fires [where h = fixedOffsetHost and t = 1700001000000
      and t' = 1700001059000 and st = "initialState\<lparr>alarms := [twoAlarms ! 1]\<rparr>"]
  show ?thesis
    using t u by (simp add: hm twoAlarms_def ascii_def)
qed

text \<open>
  C2. The theme is a function of the local hour: morning exactly on \<open>[6,12)\<close>, afternoon
  exactly on \<open>[12,18)\<close>, evening exactly on \<open>[18,21)\<close> and night on every other hour, with
  the eight boundary values of the specification. The theme effect sets the theme of
  the local hour of the instant, which lies in \<open>[0,24)\<close>.
\<close>

theorem theme_ranges:
  "(themeOfHour hr = morning \<longleftrightarrow> 6 \<le> hr \<and> hr < 12) \<and>
   (themeOfHour hr = afternoon \<longleftrightarrow> 12 \<le> hr \<and> hr < 18) \<and>
   (themeOfHour hr = evening \<longleftrightarrow> 18 \<le> hr \<and> hr < 21) \<and>
   (themeOfHour hr = night \<longleftrightarrow> hr < 6 \<or> 21 \<le> hr) \<and>
   themeOfHour 5 = night \<and> themeOfHour 6 = morning \<and> themeOfHour 11 = morning \<and>
   themeOfHour 12 = afternoon \<and> themeOfHour 17 = afternoon \<and> themeOfHour 18 = evening \<and>
   themeOfHour 20 = evening \<and> themeOfHour 21 = night \<and>
   theme (themeEffect h (st\<lparr>currentTime := Some d\<rparr>)) = themeOfHour (getHours h d) \<and>
   0 \<le> getHours h d \<and> getHours h d < 24"
  by (auto simp: themeOfHour_def themeEffect_def getHours_def HourFromTime_def)

theorem theme_ranges_witness:
  "themeOfHour 19 = evening \<and>
   theme (themeEffect fixedOffsetHost (initialState\<lparr>currentTime := Some 1700000000000\<rparr>)) = morning"
  using theme_ranges [where hr = 19 and h = fixedOffsetHost and st = initialState
      and d = 1700000000000]
  by (simp add: themeOfHour_def getHours_def HourFromTime_def LocalTime_def msPerHour_def
      fixedOffsetHost_def)

text \<open>
  C3. \<open>addAlarm\<close> with an empty time field leaves the whole state, and so the alarm
  list, unchanged. With a non-empty time it appends one alarm at the end of the list,
  whose id is the decimal string of the clock reading of the call, with the given time
  and label and \<open>enabled = true\<close>, and clears both input fields; the alarms that were in
  the list stay as they were, in front of it.
\<close>

theorem add_appends:
  "(newAlarmTime st = [] \<longrightarrow> addAlarm now st = st) \<and>
   (newAlarmTime st \<noteq> [] \<longrightarrow>
      alarms (addAlarm now st) =
        alarms st @ [\<lparr>alarm_id = numberToString now, time = newAlarmTime st,
                      label = newAlarmLabel st, enabled = True\<rparr>] \<and>
      newAlarmTime (addAlarm now st) = [] \<and> newAlarmLabel (addAlarm now st) = []) \<and>
   (t = [] \<longrightarrow> alarms (applyOp st (Add now t l)) = alarms st) \<and>
   (t \<noteq> [] \<longrightarrow>
      alarms (applyOp st (Add now t l)) =
        alarms st @ [\<lparr>alarm_id = numberToString now, time = t, label = l, enabled = True\<rparr>] \<and>
      newAlarmTime (applyOp st (Add now t l)) = [] \<and>
      newAlarmLabel (applyOp st (Add now t l)) = [])"
  by (simp add: addAlarm_def)

theorem add_appends_witness:
  "addAlarm 5 (initialState\<lparr>alarms := twoAlarms, newAlarmLabel := ascii ''x''\<rparr>) =
     initialState\<lparr>alarms := twoAlarms, newAlarmLabel := ascii ''x''\<rparr> \<and>
   alarms (applyOp (initialState\<lparr>alarms := twoAlarms\<rparr>) (Add 5 (ascii ''07:30'') [])) =
     twoAlarms @ [\<lparr>alarm_id = ascii ''5'', time = ascii ''07:30'', label = [], enabled = True\<rparr>] \<and>
   newAlarmTime (applyOp (initialState\<lparr>alarms := twoAlarms\<rparr>) (Add 5 (ascii ''07:30'') [])) = []"
  using add_appends [of "initialState\<lparr>alarms := twoAlarms, newAlarmLabel := ascii ''x''\<rparr>" 5]
    add_appends [of "initialState\<lparr>alarms := twoAlarms\<rparr>" 5 "ascii ''07:30''" "[]"]
  by (simp add: initialState_def ascii_def numberToString_def digitsOf.simps)

text \<open>
  C4. \<open>toggleAlarm\<close> keeps the length of the list; at every position, an alarm whose id
  matches has its enabled flag negated and nothing else changed, and an alarm whose id
  does not match is unchanged. If no alarm has the id the state is unchanged, and
  toggling the same id twice gives back the state, so every flag returns to its value.
\<close>

theorem toggle_flips:
  "length (alarms (toggleAlarm i st)) = length (alarms st) \<and>
   (\<forall>k < length (alarms st).
      (alarm_id (alarms st ! k) = i \<longrightarrow>
         alarms (toggleAlarm i st) ! k = (alarms st ! k)\<lparr>enabled := \<not> enabled (alarms st ! k)\<rparr>) \<and>
      (alarm_id (alarms st ! k) \<noteq> i \<longrightarrow> alarms (toggleAlarm i st) ! k = alarms st ! k)) \<and>
   (i \<notin> alarm_id ` set (alarms st) \<longrightarrow> toggleAlarm i st = st) \<and>
   toggleAlarm i (toggleAlarm i st) = st"
  using toggle_twice [of i st] toggle_absent [of i st]
  by (simp add: toggleAlarm_def)

theorem toggle_flips_witness:
  "alarms (toggleAlarm (ascii ''1700000000001'') (initialState\<lparr>alarms := twoAlarms\<rparr>)) =
     [twoAlarms ! 0, (twoAlarms ! 1)\<lparr>enabled := True\<rparr>] \<and>
   toggleAlarm (ascii ''3'') (initialState\<lparr>alarms := twoAlarms\<rparr>) =
     initialState\<lparr>alarms := twoAlarms\<rparr>"
  using toggle_flips [of "ascii ''1700000000001''" "initialState\<lparr>alarms := twoAlarms\<rparr>"]
    toggle_flips [of "ascii ''3''" "initialState\<lparr>alarms := twoAlarms\<rparr>"]
  by (simp add: toggleAlarm_def twoAlarms_def ascii_def)

text \<open>
  C5. \<open>deleteAlarm\<close> removes every occurrence of every alarm whose id matches and keeps
  every occurrence of every other alarm: the result is the list filtered by "id differs".
  If no alarm has the id, \<open>deleteAlarm\<close> and \<open>toggleAlarm\<close> leave the state unchanged; so
  after \<open>deleteAlarm i\<close>, a second \<open>deleteAlarm i\<close> or a \<open>toggleAlarm i\<close> changes nothing.
\<close>

theorem delete_removes:
  "(\<forall>a. count_list (alarms (deleteAlarm i st)) a =
        (if alarm_id a = i then 0 else count_list (alarms st) a)) \<and>
   alarms (deleteAlarm i st) = filter (\<lambda>a. alarm_id a \<noteq> i) (alarms st) \<and>
   (i \<notin> alarm_id ` set (alarms st) \<longrightarrow> deleteAlarm i st = st \<and> toggleAlarm i st = st) \<and>
   deleteAlarm i (deleteAlarm i st) = deleteAlarm i st \<and>
   toggleAlarm i (deleteAlarm i st) = deleteAlarm i st"
proof -
  have c: "count_list (filter (\<lambda>a. alarm_id a \<noteq> i) xs) a =
        (if alarm_id a = i then 0 else count_list xs a)" for xs :: "Alarm list" and a
    by (induction xs) auto
  show ?thesis
    using delete_absent [of i st] toggle_absent [of i st]
      delete_absent [OF delete_removes_id, of i st] toggle_absent [OF delete_removes_id, of i st]
    by (simp add: c deleteAlarm_def)
qed

theorem delete_removes_witness:
  "alarms (deleteAlarm (ascii ''1700000000000'') (initialState\<lparr>alarms := twoAlarms\<rparr>)) =
     [twoAlarms ! 1] \<and>
   deleteAlarm (ascii ''3'') (initialState\<lparr>alarms := twoAlarms\<rparr>) =
     initialState\<lparr>alarms := twoAlarms\<rparr> \<and>
   toggleAlarm (ascii ''3'') (initialState\<lparr>alarms := twoAlarms\<rparr>) =
     initialState\<lparr>alarms := twoAlarms\<rparr>"
  using delete_removes [of "ascii ''1700000000000''" "initialState\<lparr>alarms := twoAlarms\<rparr>"]
    delete_removes [of "ascii ''3''" "initialState\<lparr>alarms := twoAlarms\<rparr>"]
  by (simp add: deleteAlarm_def toggleAlarm_def twoAlarms_def ascii_def)

text \<open>
  C6. The claim says that ids are pairwise distinct in every reachable alarm list, and
  the source's comments call the id unique. The code takes the id from the millisecond
  clock: two adds that read the same millisecond, each with a time of the form \<open>HH:MM\<close>,
  give a list of two alarms with one and the same id.
\<close>

theorem same_millisecond_same_id:
  "alarms (run [Add 1700000000000 (ascii ''07:30'') [],
                Add 1700000000000 (ascii ''09:00'') (ascii ''Meeting'')]) =
     [\<lparr>alarm_id = ascii ''1700000000000'', time = ascii ''07:30'', label = [],
        enabled = True\<rparr>,
      \<lparr>alarm_id = ascii ''1700000000000'', time = ascii ''09:00'', label = ascii ''Meeting'',
        enabled = True\<rparr>] \<and>
   \<not> distinct (map alarm_id (alarms (run [Add 1700000000000 (ascii ''07:30'') [],
                Add 1700000000000 (ascii ''09:00'') (ascii ''Meeting'')]))) \<and>
   isHHMM (ascii ''07:30'') \<and> isHHMM (ascii ''09:00'')"
  by (simp add: run_def initialState_def addAlarm_def numberToString_def digitsOf_numeral
      digitsOf_0_1 isHHMM_def isDigit_def ascii_def)

text \<open>
  C7. The alert of an alarm is the prefix of the alert followed by the alarm's label
  if the label is not empty, and the prefix followed by the default message (the
  source's literal for "time to wake up") if the label is empty; a tick whose local
  hour and minute match an enabled alarm raises this alert.
\<close>

theorem alert_message:
  "(label a \<noteq> [] \<longrightarrow> alertMessage a = [0x30A2, 0x30E9, 0x30FC, 0x30E0, 0x3A, 0x20] @ label a) \<and>
   (label a = [] \<longrightarrow>
      alertMessage a =
        [0x30A2, 0x30E9, 0x30FC, 0x30E0, 0x3A, 0x20] @
        [0x8D77, 0x304D, 0x308B, 0x6642, 0x9593, 0x3067, 0x3059, 0xFF01]) \<and>
   (enabled a \<and> time a = localHHMM h t \<longrightarrow>
      fst (tick h t (st\<lparr>alarms := [a]\<rparr>)) = [alertMessage a])"
  by (simp add: tick_alerts alertMessage_def alertPrefix_def defaultMessage_def)

theorem alert_message_witness:
  "alertMessage (twoAlarms ! 1) = alertPrefix @ ascii ''Meeting'' \<and>
   alertMessage (twoAlarms ! 0) = alertPrefix @ defaultMessage \<and>
   fst (tick fixedOffsetHost 1700001000000 (initialState\<lparr>alarms := [twoAlarms ! 0]\<rparr>)) =
     [alertPrefix @ defaultMessage]"
proof -
  have hm: "localHHMM fixedOffsetHost 1700001000000 = ascii ''07:30''"
    by (simp add: localHHMM_def twoDigits_def host_eval)
  note t = alert_message [where a = "twoAlarms ! 0" and h = fixedOffsetHost
      and t = 1700001000000 and st = initialState]
  note u = alert_message [where a = "twoAlarms ! 1" and h = fixedOffsetHost
      and t = 1700001000000 and st = initialState]
  show ?thesis
    using t u by (simp add: hm twoAlarms_def ascii_def alertPrefix_def defaultMessage_def)
qed



text \<open>
  C9. For the undefined instant (\<open>null\<close>), on every host, \<open>formatTime\<close> returns the
  placeholder \<open>--:--:--\<close> and \<open>formatDate\<close> returns the placeholder of four hyphens, the
  year sign, two hyphens, the month sign, two hyphens and the day sign; the instant of
  the initial state is undefined.
\<close>

theorem format_placeholders:
  "formatTime h None = ascii ''--:--:--'' \<and>
   formatDate h None =
     [0x2D, 0x2D, 0x2D, 0x2D, 0x5E74, 0x2D, 0x2D, 0x6708, 0x2D, 0x2D, 0x65E5] \<and>
   currentTime initialState = None"
  by (simp add: formatTime_def formatDate_def timePlaceholder_def datePlaceholder_def
      initialState_def)

theorem format_placeholders_witness:
  "formatTime fixedOffsetHost (currentTime initialState) = ascii ''--:--:--''"
  using format_placeholders [of fixedOffsetHost] by simp

text \<open>
  C10. \<open>toggleAlarm\<close> keeps the length of the list and, position by position, the id,
  time and label of every alarm. \<open>deleteAlarm\<close> returns a subsequence of the list: the
  alarms it keeps are unmodified and in their former relative order.
\<close>

theorem toggle_delete_frame:
  "length (alarms (toggleAlarm i st)) = length (alarms st) \<and>
   map alarm_id (alarms (toggleAlarm i st)) = map alarm_id (alarms st) \<and>
   map time (alarms (toggleAlarm i st)) = map time (alarms st) \<and>
   map label (alarms (toggleAlarm i st)) = map label (alarms st) \<and>
   subseq (alarms (deleteAlarm i st)) (alarms st)"
  by (simp add: toggleAlarm_def deleteAlarm_def o_def if_distrib cong: if_cong)

theorem toggle_delete_frame_witness:
  "map time (alarms (toggleAlarm (ascii ''1700000000000'') (initialState\<lparr>alarms := twoAlarms\<rparr>))) =
     [ascii ''07:30'', ascii ''09:00''] \<and>
   subseq (alarms (deleteAlarm (ascii ''1700000000000'') (initialState\<lparr>alarms := twoAlarms\<rparr>)))
     twoAlarms"
  using toggle_delete_frame [of "ascii ''1700000000000''" "initialState\<lparr>alarms := twoAlarms\<rparr>"]
  by (simp add: twoAlarms_def)

end
